theory Spec2Isabelle
  imports
    Complex_Main
    "HOL-Library.Char_ord"
    "HOL-Library.List_Lexorder"
    "HOL-Library.Product_Lexorder"
    "HOL-Library.Multiset"
begin

section \<open>Python values used by the schedule generator\<close>

text \<open>
  The generator is the class \<open>SmartScheduleGenerator\<close> of
  \<open>app/ai/schedule_generator.py\<close>. Exceptions are values of \<open>py_error\<close>; a method
  that may raise returns \<open>py_error + 'a\<close>. Integers are Python's unbounded \<open>int\<close>.
  The float arithmetic of the source only multiplies small integers by the constants
  1.2, 0.8, 1.3, 1.1, 0.9 and sums a few such products; it is modelled by exact
  rationals.
\<close>

datatype py_error =
  AttributeError | KeyError | ValueError | ZeroDivisionError | IndexError | NameError
  | TypeError | ExternalCallError

text \<open>\<open>int(x)\<close> truncates towards zero; \<open>round(x)\<close> rounds half to even.\<close>

definition py_int :: "rat \<Rightarrow> int" where
  "py_int x = (if 0 \<le> x then \<lfloor>x\<rfloor> else \<lceil>x\<rceil>)"

definition py_round :: "rat \<Rightarrow> int" where
  "py_round x =
     (let f = \<lfloor>x\<rfloor>; r = x - of_int f
      in if r < 1 / 2 then f else if 1 / 2 < r then f + 1
         else if even f then f else f + 1)"

text \<open>\<open>str.lower()\<close> on ASCII text.\<close>

definition lower_char :: "char \<Rightarrow> char" where
  "lower_char c =
     (let n = (of_char c :: nat) in if 65 \<le> n \<and> n \<le> 90 then char_of (n + 32) else c)"

definition lower :: "string \<Rightarrow> string" where
  "lower s = map lower_char s"

text \<open>\<open>a or b\<close> for an optional integer column: \<open>None\<close> and \<open>0\<close> are falsy.\<close>

definition or_int :: "int option \<Rightarrow> int \<Rightarrow> int" where
  "or_int a b = (case a of None \<Rightarrow> b | Some v \<Rightarrow> if v = 0 then b else v)"

text \<open>\<open>a or b\<close> for an optional string column: \<open>None\<close> and the empty string are falsy.\<close>

definition or_str :: "string option \<Rightarrow> string \<Rightarrow> string" where
  "or_str a b = (case a of None \<Rightarrow> b | Some v \<Rightarrow> if v = [] then b else v)"

section \<open>Data model\<close>

text \<open>
  The columns of \<open>Task\<close> the generator reads. Dates are day ordinals, so that the
  difference of two dates is the \<open>.days\<close> of the source; a due date is taken as a
  date, the type the scheduling methods are annotated with and subtract the schedule's
  date from (the column itself is declared \<open>DateTime\<close>). \<open>goal_alignment\<close> is not a
  column: it is an attribute that \<open>_get_productivity_tasks\<close> sets on the objects it
  returns, absent (\<open>None\<close> here) on any other task object.
\<close>

record task =
  task_id :: int
  priority :: string
  category :: "string option"
  due_date :: "int option"
  estimated_duration :: "int option"
  goal_id :: "int option"
  goal_alignment :: "rat option"

text \<open>
  A \<open>Schedule\<close> row with its \<open>ScheduleTask\<close> rows: task id, scheduled time in minutes
  after midnight of the schedule's date, duration in minutes.
\<close>

type_synonym allocation = "int \<times> int \<times> int"

record schedule =
  generated_by_ai :: bool
  total_study_time :: int
  schedule_tasks :: "allocation list"

section \<open>Duration of a task in a block (\<open>_calculate_optimal_duration\<close>)\<close>

definition category_multipliers :: "string \<Rightarrow> rat option" where
  "category_multipliers =
     map_of [(''exam'', 13 / 10), (''assignment'', 11 / 10), (''reading'', 9 / 10),
             (''practice'', 1), (''review'', 8 / 10)]"

definition calculate_optimal_duration :: "task \<Rightarrow> int \<Rightarrow> int \<Rightarrow> int" where
  "calculate_optimal_duration t available_time default_duration =
     (let base0 = (of_int (or_int (estimated_duration t) default_duration) :: rat);
          base1 = (if priority t = ''high'' then min (base0 * (12 / 10)) (of_int available_time)
                   else if priority t = ''low'' then max (base0 * (8 / 10)) 15
                   else base0);
          base2 = (case category_multipliers (lower (or_str (category t) [])) of
                     Some m \<Rightarrow> base1 * m
                   | None \<Rightarrow> base1);
          duration = max 15 (min (py_int base2) (min available_time 120))
      in py_round (of_int duration / 5) * 5)"

section \<open>Workload balance (\<open>_analyze_workload_balance\<close>)\<close>

record workload_report =
  report_total :: int
  balance_level :: string
  recommendation :: "string option"

definition analyze_workload_balance :: "schedule \<Rightarrow> workload_report" where
  "analyze_workload_balance s =
     (let total_time = total_study_time s
      in if total_time > 300 then
           \<lparr>report_total = total_time, balance_level = ''overloaded'',
            recommendation = Some ''Consider breaking into multiple days''\<rparr>
         else if total_time > 180 then
           \<lparr>report_total = total_time, balance_level = ''balanced'', recommendation = None\<rparr>
         else
           \<lparr>report_total = total_time, balance_level = ''light'',
            recommendation = Some ''Could add more study time if available''\<rparr>)"

section \<open>User settings and the generator object\<close>

record user_settings =
  pomodoro_work_duration :: int
  pomodoro_break_duration :: int
  long_break_duration :: int
  sessions_until_long_break :: int
  preferred_study_times :: "string list option"

text \<open>
  \<open>preferred_study_times\<close> is the column after \<open>json.loads\<close> (it is only ever written
  by \<open>json.dumps\<close> of a list): \<open>None\<close> is the empty column, \<open>Some []\<close> the stored
  text \<open>[]\<close>, which is truthy.
\<close>

record goal =
  goal_ident :: int
  goal_category :: "string option"

text \<open>
  The state of a \<open>SmartScheduleGenerator\<close> that the scheduling methods read. The three
  task lists are the results of the queries of \<open>_get_productivity_tasks\<close>,
  \<open>_get_enterprise_tasks\<close> and \<open>_generate_basic_schedule\<close> for the date at hand;
  the persistence layer that answers them is outside the generator.
  \<open>energy_patterns\<close> maps an hour to its average energy.
\<close>

record generator =
  user_settings :: "user_settings option"
  api_available :: bool
  energy_patterns :: "(nat \<times> rat) list"
  pending_productivity :: "task list"
  pending_enterprise :: "task list"
  pending_basic :: "task list"
  active_goals :: "goal list"

text \<open>The four local variables that open \<open>_allocate_tasks_fallback\<close>.\<close>

record pomodoro =
  work_duration :: int
  break_duration :: int
  long_break :: int
  sessions_until_long :: int

definition pomodoro_of :: "generator \<Rightarrow> pomodoro" where
  "pomodoro_of g =
     (case user_settings g of
        Some s \<Rightarrow> \<lparr>work_duration = pomodoro_work_duration s,
                   break_duration = pomodoro_break_duration s,
                   long_break = long_break_duration s,
                   sessions_until_long = sessions_until_long_break s\<rparr>
      | None \<Rightarrow> \<lparr>work_duration = 25, break_duration = 5, long_break = 15,
                 sessions_until_long = 4\<rparr>)"

text \<open>Running a fallible function over a list: the first exception ends the loop.\<close>

fun map_err :: "('a \<Rightarrow> py_error + 'b) \<Rightarrow> 'a list \<Rightarrow> py_error + 'b list" where
  "map_err f [] = Inr []"
| "map_err f (x # xs) =
     (case f x of
        Inl e \<Rightarrow> Inl e
      | Inr y \<Rightarrow> (case map_err f xs of Inl e \<Rightarrow> Inl e | Inr ys \<Rightarrow> Inr (y # ys)))"


section \<open>Preferred study times (\<open>_get_preferred_times\<close>)\<close>

text \<open>
  \<open>datetime.strptime(t, '%H:%M').time()\<close> on ASCII text, as minutes after midnight:
  one or two digits for the hour (at most 23), a colon, one or two digits for the minute
  (at most 59), and nothing else; anything else raises \<open>ValueError\<close>.
\<close>

definition digit_val :: "char \<Rightarrow> nat option" where
  "digit_val c =
     (let n = (of_char c :: nat) in if 48 \<le> n \<and> n \<le> 57 then Some (n - 48) else None)"

fun digits_val :: "string \<Rightarrow> nat option" where
  "digits_val [a] = digit_val a"
| "digits_val [a, b] =
     (case digit_val a of
        None \<Rightarrow> None
      | Some x \<Rightarrow> (case digit_val b of None \<Rightarrow> None | Some y \<Rightarrow> Some (10 * x + y)))"
| "digits_val _ = None"

definition strptime_HM :: "string \<Rightarrow> py_error + int" where
  "strptime_HM s =
     (case dropWhile (\<lambda>c. c \<noteq> CHR '':'') s of
        [] \<Rightarrow> Inl ValueError
      | _ # m \<Rightarrow>
          (case digits_val (takeWhile (\<lambda>c. c \<noteq> CHR '':'') s) of
             None \<Rightarrow> Inl ValueError
           | Some hh \<Rightarrow>
               (case digits_val m of
                  None \<Rightarrow> Inl ValueError
                | Some mm \<Rightarrow>
                    if hh \<le> 23 \<and> mm \<le> 59 then Inr (int (60 * hh + mm))
                    else Inl ValueError)))"

definition hm :: "int \<Rightarrow> int \<Rightarrow> int" where
  "hm h m = 60 * h + m"

definition get_preferred_times :: "generator \<Rightarrow> py_error + int list" where
  "get_preferred_times g =
     (case user_settings g of
        None \<Rightarrow> Inr [hm 9 0, hm 14 0, hm 19 0]
      | Some s \<Rightarrow>
          (case preferred_study_times s of
             None \<Rightarrow> Inr [hm 9 0, hm 14 0, hm 19 0]
           | Some strs \<Rightarrow> map_err strptime_HM strs))"

section \<open>The day skeleton (\<open>_create_advanced_daily_structure\<close>)\<close>

text \<open>
  A block is the dictionary with keys \<open>start\<close>, \<open>end\<close> and \<open>type\<close>; times are minutes
  after midnight of the date the skeleton is built for.
\<close>

record time_block =
  block_start :: int
  block_end :: int
  block_type :: string

definition create_advanced_daily_structure :: "time_block list" where
  "create_advanced_daily_structure =
     [\<lparr>block_start = hm 8 0, block_end = hm 9 0, block_type = ''morning_routine''\<rparr>,
      \<lparr>block_start = hm 9 0, block_end = hm 10 30, block_type = ''study''\<rparr>,
      \<lparr>block_start = hm 10 30, block_end = hm 11 0, block_type = ''break''\<rparr>,
      \<lparr>block_start = hm 11 0, block_end = hm 12 30, block_type = ''study''\<rparr>,
      \<lparr>block_start = hm 12 30, block_end = hm 13 30, block_type = ''meal''\<rparr>,
      \<lparr>block_start = hm 13 30, block_end = hm 15 0, block_type = ''study''\<rparr>,
      \<lparr>block_start = hm 15 0, block_end = hm 15 30, block_type = ''break''\<rparr>,
      \<lparr>block_start = hm 15 30, block_end = hm 17 0, block_type = ''study''\<rparr>,
      \<lparr>block_start = hm 17 0, block_end = hm 18 0, block_type = ''meal''\<rparr>,
      \<lparr>block_start = hm 18 0, block_end = hm 19 30, block_type = ''study''\<rparr>,
      \<lparr>block_start = hm 19 30, block_end = hm 20 0, block_type = ''wind_down''\<rparr>]"

section \<open>The rule-based allocator (\<open>_allocate_tasks_fallback\<close>)\<close>

text \<open>The sort key of lines 724--728; \<open>datetime.date.max\<close> is day 3652059.\<close>

definition date_max :: int where
  "date_max = 3652059"

definition fallback_sort_key :: "task \<Rightarrow> int \<times> int \<times> string" where
  "fallback_sort_key t =
     (if priority t = ''high'' then 0 else if priority t = ''medium'' then 1 else 2,
      case due_date t of Some d \<Rightarrow> d | None \<Rightarrow> date_max,
      or_str (category t) ''z'')"

text \<open>
  The allocator returns the list \<open>allocations\<close>. The model records, next to each
  appended allocation (\<open>Session\<close>), the breaks the loop takes (the source only moves
  \<open>block_start_time\<close> over them: "this would be handled by pomodoro system") and the
  block the outer loop is in; \<open>sessions\<close> projects the trace to what the source returns.
\<close>

datatype break_kind = Short | Long

datatype event =
  EnterBlock time_block
  | Session int int int
  | Break break_kind int int

fun sessions :: "event list \<Rightarrow> allocation list" where
  "sessions [] = []"
| "sessions (Session i s d # es) = (i, s, d) # sessions es"
| "sessions (EnterBlock b # es) = sessions es"
| "sessions (Break k s d # es) = sessions es"

text \<open>
  Lines 771--778, after a session has been appended and the counters updated: the
  arguments are the updated \<open>remaining_block_time\<close>, \<open>block_start_time\<close> and
  \<open>session_count\<close>, and whether \<open>task_index < len(sorted_tasks)\<close>. The result is the
  break taken (if any) and the three variables after it.
\<close>

definition insert_break ::
  "pomodoro \<Rightarrow> bool \<Rightarrow> int \<Rightarrow> int \<Rightarrow> int \<Rightarrow> py_error + (event list \<times> int \<times> int \<times> int)" where
  "insert_break p tasks_left remaining_block_time block_start_time session_count =
     (if remaining_block_time \<ge> break_duration p \<and> tasks_left then
        if sessions_until_long p = 0 then Inl ZeroDivisionError
        else
          let nth = (session_count mod sessions_until_long p = 0);
              break_duration_actual = (if \<not> nth then break_duration p else long_break p)
          in if remaining_block_time \<ge> break_duration_actual then
               Inr ([Break (if nth then Long else Short) block_start_time break_duration_actual],
                    remaining_block_time - break_duration_actual,
                    block_start_time + break_duration_actual,
                    if nth then 0 else session_count)
             else Inr ([], remaining_block_time, block_start_time, session_count)
      else Inr ([], remaining_block_time, block_start_time, session_count))"

text \<open>
  The \<open>while\<close> loop of lines 754--780 over the tasks not yet placed; it returns the
  trace of the block, the tasks still to place and \<open>session_count\<close>.
\<close>

fun fill_block ::
  "pomodoro \<Rightarrow> task list \<Rightarrow> int \<Rightarrow> int \<Rightarrow> int \<Rightarrow> py_error + (event list \<times> task list \<times> int)" where
  "fill_block p [] remaining_block_time block_start_time session_count =
     Inr ([], [], session_count)"
| "fill_block p (t # ts) remaining_block_time block_start_time session_count =
     (if remaining_block_time \<ge> work_duration p then
        let duration = calculate_optimal_duration t remaining_block_time (work_duration p)
        in if duration \<le> remaining_block_time then
             (case insert_break p (ts \<noteq> []) (remaining_block_time - duration)
                     (block_start_time + duration) (session_count + 1) of
                Inl e \<Rightarrow> Inl e
              | Inr (brk, remaining', start', count') \<Rightarrow>
                  (case fill_block p ts remaining' start' count' of
                     Inl e \<Rightarrow> Inl e
                   | Inr (evs, rest, count'') \<Rightarrow>
                       Inr (Session (task_id t) block_start_time duration # brk @ evs,
                            rest, count'')))
           else Inr ([], t # ts, session_count)
      else Inr ([], t # ts, session_count))"

text \<open>
  The \<open>for\<close> loop over the blocks (lines 737--780). \<open>available_minutes\<close> is
  \<open>(block_end - block_start).seconds // 60\<close>, the difference modulo one day.
\<close>

fun allocate_blocks ::
  "pomodoro \<Rightarrow> time_block list \<Rightarrow> task list \<Rightarrow> int \<Rightarrow> py_error + event list" where
  "allocate_blocks p [] ts session_count = Inr []"
| "allocate_blocks p (b # bs) ts session_count =
     (if ts = [] then Inr []
      else if block_type b = ''break'' then allocate_blocks p bs ts session_count
      else
        (case fill_block p ts ((block_end b - block_start b) mod 1440) (block_start b)
                session_count of
           Inl e \<Rightarrow> Inl e
         | Inr (evs, rest, count') \<Rightarrow>
             (case allocate_blocks p bs rest count' of
                Inl e \<Rightarrow> Inl e
              | Inr evs' \<Rightarrow> Inr (EnterBlock b # evs @ evs'))))"

definition allocate_trace :: "generator \<Rightarrow> task list \<Rightarrow> py_error + event list" where
  "allocate_trace g tasks =
     allocate_blocks (pomodoro_of g) create_advanced_daily_structure
       (sort_key fallback_sort_key tasks) 0"

definition allocate_tasks_fallback :: "generator \<Rightarrow> task list \<Rightarrow> py_error + allocation list" where
  "allocate_tasks_fallback g tasks = map_sum id sessions (allocate_trace g tasks)"

section \<open>The productivity-optimized tier\<close>




























section \<open>The advanced and the basic tier, and the fallback chain\<close>

definition schedule_of :: "bool \<Rightarrow> allocation list \<Rightarrow> schedule" where
  "schedule_of by_ai allocations =
     \<lparr>generated_by_ai = by_ai,
      total_study_time = sum_list (map (\<lambda>(i, s, d). d) allocations),
      schedule_tasks = allocations\<rparr>"




section \<open>The external generator (\<open>_generate_ai_schedule\<close>)\<close>

text \<open>
  What comes back from \<open>self.model.generate_content\<close>, seen through the \<open>try\<close> block:
  the call raises, the text is not JSON, the JSON has no key \<open>schedule\<close>, or there is a
  list of items. In an item a field is \<open>None\<close> when its key is missing; the duration
  is \<open>None\<close> as well when its value cannot be compared with a number.
\<close>

record ai_item =
  item_task_id :: "int option"
  item_scheduled_time :: "string option"
  item_duration :: "int option"

datatype ai_response = CallFailed | Unparseable | NoScheduleKey | ScheduleItems "ai_item list"

definition convert_item :: "ai_item \<Rightarrow> py_error + allocation" where
  "convert_item item =
     (case item_scheduled_time item of
        None \<Rightarrow> Inl KeyError
      | Some str \<Rightarrow>
          (case strptime_HM str of
             Inl e \<Rightarrow> Inl e
           | Inr scheduled_datetime \<Rightarrow>
               (case item_duration item of
                  None \<Rightarrow> Inl TypeError
                | Some d \<Rightarrow>
                    (case item_task_id item of
                       None \<Rightarrow> Inl KeyError
                     | Some i \<Rightarrow> Inr (i, scheduled_datetime, max 15 (min d 90))))))"

text \<open>The body of the \<open>try\<close> block: preferred times, the call, the conversion loop.\<close>

definition ai_schedule_try :: "generator \<Rightarrow> ai_response \<Rightarrow> py_error + allocation list" where
  "ai_schedule_try g response =
     (case get_preferred_times g of
        Inl e \<Rightarrow> Inl e
      | Inr preferred_times \<Rightarrow>
          (case response of
             CallFailed \<Rightarrow> Inl ExternalCallError
           | Unparseable \<Rightarrow> Inl ValueError
           | NoScheduleKey \<Rightarrow> Inl KeyError
           | ScheduleItems items \<Rightarrow> map_err convert_item items))"

definition generate_ai_schedule ::
  "generator \<Rightarrow> task list \<Rightarrow> ai_response \<Rightarrow> py_error + allocation list" where
  "generate_ai_schedule g tasks response =
     (if \<not> api_available g then allocate_tasks_fallback g tasks
      else
        (case ai_schedule_try g response of
           Inr allocations \<Rightarrow> Inr allocations
         | Inl e \<Rightarrow> allocate_tasks_fallback g tasks))"

section \<open>Distribution over several days\<close>







section \<open>Notions the properties are stated with\<close>

text \<open>An allocation lies within a block; two allocations overlap as half-open intervals.\<close>

definition lies_within :: "allocation \<Rightarrow> time_block \<Rightarrow> bool" where
  "lies_within a b = (case a of (i, s, d) \<Rightarrow> block_start b \<le> s \<and> s + d \<le> block_end b)"


definition meets_block :: "allocation \<Rightarrow> time_block \<Rightarrow> bool" where
  "meets_block a b = (case a of (i, s, d) \<Rightarrow> s < block_end b \<and> block_start b < s + d)"




text \<open>
  Auxiliary notions of the proofs: one allocation ends before the next starts; an
  allocation with a positive duration inside an interval; a skeleton whose blocks follow
  one another within a day; a trace that does not begin with a break, or with a session;
  the tasks whose index, counted from \<open>i\<close>, falls on day \<open>d\<close> of \<open>n\<close>.
\<close>

definition precedes :: "allocation \<Rightarrow> allocation \<Rightarrow> bool" where
  "precedes a a' = (case a of (i, s, d) \<Rightarrow> case a' of (i', s', d') \<Rightarrow> s + d \<le> s')"

definition inside :: "int \<Rightarrow> int \<Rightarrow> allocation \<Rightarrow> bool" where
  "inside lo hi a = (case a of (i, s, d) \<Rightarrow> lo \<le> s \<and> s + d \<le> hi \<and> 0 < d)"

definition skeleton_ok :: "time_block list \<Rightarrow> bool" where
  "skeleton_ok bs =
     (sorted_wrt (\<lambda>b b'. block_end b \<le> block_start b') bs \<and>
      (\<forall>b \<in> set bs. block_start b \<le> block_end b \<and> block_end b - block_start b < 1440))"




section \<open>Example inputs\<close>

text \<open>
  A generator of a user without settings, energy patterns, goals or pending tasks; a
  task with an estimated duration and nothing else; a pending task of medium priority
  due on day 100, as the queries return it for that day; a task of 30 minutes as
  \<open>_get_productivity_tasks\<close> hands it on when the user has no goals (alignment 0.5);
  settings with the default work and short-break durations.
\<close>

definition default_generator :: generator where
  "default_generator =
     \<lparr>user_settings = None, api_available = False, energy_patterns = [],
      pending_productivity = [], pending_enterprise = [], pending_basic = [],
      active_goals = []\<rparr>"

definition example_task :: "int \<Rightarrow> string \<Rightarrow> int \<Rightarrow> task" where
  "example_task i p e =
     \<lparr>task_id = i, priority = p, category = None, due_date = None,
      estimated_duration = Some e, goal_id = None, goal_alignment = None\<rparr>"




section \<open>The duration estimator\<close>

lemma py_round_fifth: "py_round (of_int d / 5) = (d + 2) div 5"
proof -
  have fl: "\<lfloor>(of_int d :: rat) / 5\<rfloor> = d div 5"
    using floor_divide_of_int_eq [of d 5, where ?'a = rat] by simp
  have fr: "(of_int d :: rat) / 5 - of_int (d div 5) = of_int (d mod 5) / 5"
  proof -
    have "(of_int d :: rat) = of_int (5 * (d div 5) + d mod 5)" by simp
    also have "\<dots> = 5 * of_int (d div 5) + of_int (d mod 5)"
      by (simp only: of_int_add of_int_mult of_int_numeral)
    finally show ?thesis by (simp add: field_simps)
  qed
  have "0 \<le> d mod 5" "d mod 5 < 5" by simp_all
  then consider "d mod 5 = 0" | "d mod 5 = 1" | "d mod 5 = 2" | "d mod 5 = 3" | "d mod 5 = 4"
    by linarith
  then show ?thesis
  proof cases
    case 1 then show ?thesis unfolding py_round_def Let_def fl fr by simp presburger
  next
    case 2 then show ?thesis unfolding py_round_def Let_def fl fr by simp presburger
  next
    case 3 then show ?thesis unfolding py_round_def Let_def fl fr by simp presburger
  next
    case 4 then show ?thesis unfolding py_round_def Let_def fl fr by simp presburger
  next
    case 5 then show ?thesis unfolding py_round_def Let_def fl fr by simp presburger
  qed
qed

lemma round5_bounds:
  assumes "15 \<le> d" "d \<le> 120"
  shows "15 \<le> py_round (of_int d / 5) * 5" "py_round (of_int d / 5) * 5 \<le> 120"
        "5 dvd py_round (of_int d / 5) * 5"
  using assms unfolding py_round_fifth by (presburger, presburger, simp)

lemma calculate_optimal_duration_range:
  "15 \<le> calculate_optimal_duration t a d \<and> calculate_optimal_duration t a d \<le> 120
   \<and> 5 dvd calculate_optimal_duration t a d"
proof -
  obtain b where b: "calculate_optimal_duration t a d
                     = py_round (of_int (max 15 (min b (min a 120))) / 5) * 5"
    unfolding calculate_optimal_duration_def Let_def by blast
  have "15 \<le> max 15 (min b (min a 120))" "max 15 (min b (min a 120)) \<le> 120" by simp_all
  from round5_bounds [OF this] show ?thesis unfolding b by blast
qed

text \<open>
  C4. For every task, available time and default duration, the duration computed by
  \<open>_calculate_optimal_duration\<close> (the estimate, or else the default duration, times the
  priority and category multipliers, then clamped and rounded) is an integer between 15
  and 120 minutes and a multiple of 5; in particular it is never zero or negative.
\<close>

theorem C4_duration_bounds:
  "calculate_optimal_duration t available_time default_duration \<in> {15 .. 120}
   \<and> 5 dvd calculate_optimal_duration t available_time default_duration
   \<and> 0 < calculate_optimal_duration t available_time default_duration"
  using calculate_optimal_duration_range [of t available_time default_duration] by simp

theorem C4_duration_bounds_witness:
  "calculate_optimal_duration (example_task 1 ''high'' 47) 90 25 = 55
   \<and> calculate_optimal_duration (example_task 1 ''high'' 47) 90 25 \<in> {15 .. 120}
   \<and> 5 dvd calculate_optimal_duration (example_task 1 ''high'' 47) 90 25"
proof -
  have "calculate_optimal_duration (example_task 1 ''high'' 47) 90 25 = 55"
    by code_simp
  with C4_duration_bounds [of "example_task 1 ''high'' 47" 90 25] show ?thesis by simp
qed

section \<open>Workload balance\<close>

text \<open>
  C9 (as stated, it fails at a total of exactly 180 minutes, which the code calls
  light). Amended: the workload-balance analysis calls the total scheduled minutes
  overloaded when greater than 300, balanced when greater than 180 and at most 300, and
  light when at most 180.
\<close>

theorem C9_workload_balance:
  "(balance_level (analyze_workload_balance s) = ''overloaded'') = (300 < total_study_time s)
   \<and> (balance_level (analyze_workload_balance s) = ''balanced'')
       = (180 < total_study_time s \<and> total_study_time s \<le> 300)
   \<and> (balance_level (analyze_workload_balance s) = ''light'') = (total_study_time s \<le> 180)"
  by (simp add: analyze_workload_balance_def Let_def)

theorem C9_workload_balance_witness:
  "balance_level (analyze_workload_balance (schedule_of True [(1, 540, 200)])) = ''balanced''
   \<and> total_study_time (schedule_of True [(1, 540, 200)]) = 200"
  using C9_workload_balance [of "schedule_of True [(1, 540, 200)]"]
  by (simp add: schedule_of_def)

theorem C9_counterexample:
  "total_study_time (schedule_of True [(1, 540, 180)]) = 180
   \<and> balance_level (analyze_workload_balance (schedule_of True [(1, 540, 180)])) = ''light''
   \<and> balance_level (analyze_workload_balance (schedule_of True [(1, 540, 180)])) \<noteq> ''balanced''"
  by (simp add: analyze_workload_balance_def schedule_of_def Let_def)

section \<open>The rule-based allocator\<close>

lemma insert_break_cases:
  assumes "insert_break p left r c sc = Inr (brk, r', c', sc')"
  shows "(brk = [] \<and> r' = r \<and> c' = c \<and> sc' = sc \<and>
          (left \<longrightarrow> sessions_until_long p \<noteq> 0 \<longrightarrow>
             r < break_duration p
             \<or> r < (if sc mod sessions_until_long p = 0 then long_break p
                    else break_duration p))) \<or>
         (\<exists>k a. brk = [Break k c a] \<and> r' = r - a \<and> c' = c + a \<and> a \<le> r \<and>
            sessions_until_long p \<noteq> 0 \<and>
            (if sc mod sessions_until_long p = 0 then k = Long \<and> a = long_break p \<and> sc' = 0
             else k = Short \<and> a = break_duration p \<and> sc' = sc))"
  using assms by (auto simp: insert_break_def Let_def split: if_splits)

lemma sessions_append: "sessions (xs @ ys) = sessions xs @ sessions ys"
  by (induction xs rule: sessions.induct) auto

text \<open>
  Inside one block: with breaks that are not negative, every session lies between the
  cursor and the end of the block, and each ends before the next starts.
\<close>

lemma fill_block_inside:
  assumes "fill_block p ts r c sc = Inr (evs, rest, sc')"
    and "0 \<le> break_duration p" "0 \<le> long_break p"
  shows "(\<forall>a \<in> set (sessions evs). inside c (c + r) a) \<and> sorted_wrt precedes (sessions evs)"
  using assms
proof (induction ts arbitrary: r c sc evs rest sc')
  case Nil
  then show ?case by simp
next
  case (Cons t ts)
  let ?d = "calculate_optimal_duration t r (work_duration p)"
  show ?case
  proof (cases "work_duration p \<le> r \<and> ?d \<le> r")
    case False
    with Cons.prems(1) have "evs = []" by (auto simp: Let_def split: if_splits)
    then show ?thesis by simp
  next
    case True
    from True Cons.prems(1) obtain brk r' c' k' evs2 where
      ib: "insert_break p (ts \<noteq> []) (r - ?d) (c + ?d) (sc + 1) = Inr (brk, r', c', k')"
      and rec: "fill_block p ts r' c' k' = Inr (evs2, rest, sc')"
      and evs: "evs = Session (task_id t) c ?d # brk @ evs2"
      by (auto simp: Let_def split: sum.splits prod.splits)
    have dpos: "15 \<le> ?d"
      using calculate_optimal_duration_range [of t r "work_duration p"] by simp
    from insert_break_cases [OF ib] Cons.prems(2,3)
    have geo: "c + ?d \<le> c'" "c' + r' = c + r" and sb: "sessions brk = []"
      by (auto split: if_splits)
    from Cons.IH [OF rec Cons.prems(2,3)]
    have ih: "\<forall>a \<in> set (sessions evs2). inside c' (c' + r') a"
      "sorted_wrt precedes (sessions evs2)"
      by auto
    have s: "sessions evs = (task_id t, c, ?d) # sessions evs2"
      by (simp add: evs sessions_append sb)
    have a1: "inside c (c + r) (task_id t, c, ?d)" using True dpos by (simp add: inside_def)
    have a2: "\<forall>a \<in> set (sessions evs2). inside c (c + r) a"
      using ih(1) geo dpos by (auto simp: inside_def)
    have a3: "\<forall>a \<in> set (sessions evs2). precedes (task_id t, c, ?d) a"
      using ih(1) geo by (auto simp: inside_def precedes_def)
    show ?thesis unfolding s using a1 a2 a3 ih(2) by simp
  qed
qed

text \<open>Over a skeleton of consecutive blocks the same holds for the whole trace.\<close>

lemma allocate_blocks_inside:
  assumes "allocate_blocks p bs ts sc = Inr evs"
    and "0 \<le> break_duration p" "0 \<le> long_break p" "skeleton_ok bs"
  shows "(\<forall>a \<in> set (sessions evs). \<exists>b \<in> set bs. block_type b \<noteq> ''break'' \<and>
            inside (block_start b) (block_end b) a)
         \<and> sorted_wrt precedes (sessions evs)"
  using assms
proof (induction bs arbitrary: ts sc evs)
  case Nil
  then show ?case by simp
next
  case (Cons b bs)
  have ok': "skeleton_ok bs" using Cons.prems(4) by (simp add: skeleton_ok_def)
  show ?case
  proof (cases "ts = []")
    case True
    with Cons.prems(1) show ?thesis by simp
  next
    case ne: False
    show ?thesis
    proof (cases "block_type b = ''break''")
      case True
      with ne Cons.prems(1) have "allocate_blocks p bs ts sc = Inr evs" by simp
      from Cons.IH [OF this Cons.prems(2,3) ok'] show ?thesis by auto
    next
      case False
      from ne False Cons.prems(1) obtain e1 rest k e2 where
        fb: "fill_block p ts ((block_end b - block_start b) mod 1440) (block_start b) sc
             = Inr (e1, rest, k)"
        and rec: "allocate_blocks p bs rest k = Inr e2"
        and evs: "evs = EnterBlock b # e1 @ e2"
        by (auto split: sum.splits prod.splits)
      have len: "(block_end b - block_start b) mod 1440 = block_end b - block_start b"
        using Cons.prems(4) by (simp add: skeleton_ok_def)
      from fill_block_inside [OF fb Cons.prems(2,3)]
      have i1: "\<forall>a \<in> set (sessions e1). inside (block_start b) (block_end b) a"
        and s1: "sorted_wrt precedes (sessions e1)"
        by (simp_all add: len)
      from Cons.IH [OF rec Cons.prems(2,3) ok']
      have i2: "\<forall>a \<in> set (sessions e2). \<exists>b' \<in> set bs. block_type b' \<noteq> ''break'' \<and>
                  inside (block_start b') (block_end b') a"
        and s2: "sorted_wrt precedes (sessions e2)"
        by auto
      have later: "\<forall>b' \<in> set bs. block_end b \<le> block_start b'"
        using Cons.prems(4) by (simp add: skeleton_ok_def)
      have cross: "\<forall>a \<in> set (sessions e1). \<forall>a' \<in> set (sessions e2). precedes a a'"
      proof (intro ballI)
        fix a a' assume a: "a \<in> set (sessions e1)" and a': "a' \<in> set (sessions e2)"
        from i2 a' obtain b' where "b' \<in> set bs" "inside (block_start b') (block_end b') a'"
          by blast
        with later i1 a show "precedes a a'"
          by (cases a; cases a') (fastforce simp: inside_def precedes_def)
      qed
      have s: "sessions evs = sessions e1 @ sessions e2" by (simp add: evs sessions_append)
      have A: "\<forall>a \<in> set (sessions evs). \<exists>b' \<in> set (b # bs). block_type b' \<noteq> ''break'' \<and>
                  inside (block_start b') (block_end b') a"
        unfolding s using i1 i2 False by auto
      have B: "sorted_wrt precedes (sessions evs)"
        unfolding s using s1 s2 cross by (simp add: sorted_wrt_append)
      from A B show ?thesis by blast
    qed
  qed
qed

lemma skeleton_ok_daily: "skeleton_ok create_advanced_daily_structure"
  by (simp add: skeleton_ok_def create_advanced_daily_structure_def hm_def)

lemma allocate_tasks_fallback_trace:
  "allocate_tasks_fallback g tasks = Inr allocations \<Longrightarrow>
     \<exists>evs. allocate_trace g tasks = Inr evs \<and> allocations = sessions evs"
  by (cases "allocate_trace g tasks") (auto simp: allocate_tasks_fallback_def)

lemma allocate_tasks_fallback_inside:
  assumes "allocate_tasks_fallback g tasks = Inr allocations"
    and "0 \<le> break_duration (pomodoro_of g)" "0 \<le> long_break (pomodoro_of g)"
  shows "\<forall>a \<in> set allocations. \<exists>b \<in> set create_advanced_daily_structure.
           block_type b \<noteq> ''break'' \<and> inside (block_start b) (block_end b) a"
    and "sorted_wrt precedes allocations"
proof -
  from allocate_tasks_fallback_trace [OF assms(1)] obtain evs where
    t: "allocate_blocks (pomodoro_of g) create_advanced_daily_structure
          (sort_key fallback_sort_key tasks) 0 = Inr evs"
    and a: "allocations = sessions evs"
    by (auto simp: allocate_trace_def)
  from allocate_blocks_inside [OF t assms(2,3) skeleton_ok_daily]
  show "\<forall>a \<in> set allocations. \<exists>b \<in> set create_advanced_daily_structure.
           block_type b \<noteq> ''break'' \<and> inside (block_start b) (block_end b) a"
    and "sorted_wrt precedes allocations"
    unfolding a by blast+
qed


text \<open>
  C1 (as stated, it fails: the loop skips only the blocks of type \<open>break\<close>, and the first
  task of a day is placed in the morning-routine block). Amended: in the rule-based
  allocator, with break durations that are not negative, every allocation's interval
  lies fully within some block of the day skeleton whose type is not \<open>break\<close> (a study,
  morning-routine, meal or wind-down block), and no allocation meets a block of type
  \<open>break\<close>.
\<close>

theorem C1_allocations_within_non_break_blocks:
  assumes "allocate_tasks_fallback g tasks = Inr allocations"
    and "0 \<le> break_duration (pomodoro_of g)" and "0 \<le> long_break (pomodoro_of g)"
    and "a \<in> set allocations"
  shows "(\<exists>b \<in> set create_advanced_daily_structure. block_type b \<noteq> ''break'' \<and> lies_within a b)
       \<and> (\<forall>b \<in> set create_advanced_daily_structure.
             block_type b = ''break'' \<longrightarrow> \<not> meets_block a b)"
proof -
  obtain i s d where a: "a = (i, s, d)" by (cases a)
  from allocate_tasks_fallback_inside(1) [OF assms(1-3)] assms(4)
  obtain b where b: "b \<in> set create_advanced_daily_structure" "block_type b \<noteq> ''break''"
    "inside (block_start b) (block_end b) a"
    by blast
  then have 1: "\<exists>b \<in> set create_advanced_daily_structure.
                  block_type b \<noteq> ''break'' \<and> lies_within a b"
    by (auto simp: a inside_def lies_within_def)
  have 2: "\<forall>b' \<in> set create_advanced_daily_structure.
             block_type b' = ''break'' \<longrightarrow> \<not> meets_block a b'"
    using b unfolding a inside_def meets_block_def create_advanced_daily_structure_def hm_def
    by auto
  from 1 2 show ?thesis by blast
qed

theorem C1_allocations_within_non_break_blocks_witness:
  "allocate_tasks_fallback default_generator
     [example_task 1 ''medium'' 25, example_task 2 ''medium'' 25]
     = Inr [(1, 480, 25), (2, 510, 25)]
   \<and> 0 \<le> break_duration (pomodoro_of default_generator)
   \<and> 0 \<le> long_break (pomodoro_of default_generator)
   \<and> (\<exists>b \<in> set create_advanced_daily_structure.
         block_type b \<noteq> ''break'' \<and> lies_within (2, 510, 25) b)
   \<and> \<not> (\<exists>b \<in> set create_advanced_daily_structure.
           block_type b = ''break'' \<and> meets_block (2, 510, 25) b)"
proof -
  have h: "allocate_tasks_fallback default_generator
             [example_task 1 ''medium'' 25, example_task 2 ''medium'' 25]
           = Inr [(1, 480, 25), (2, 510, 25)]"
    by code_simp
  have n1: "0 \<le> break_duration (pomodoro_of default_generator)"
    and n2: "0 \<le> long_break (pomodoro_of default_generator)"
    by (simp_all add: pomodoro_of_def default_generator_def)
  from C1_allocations_within_non_break_blocks [OF h n1 n2, of "(2, 510, 25)"] h n1 n2
  show ?thesis by auto
qed

theorem C1_counterexample:
  "allocate_tasks_fallback default_generator [example_task 1 ''medium'' 25]
     = Inr [(1, 480, 25)]
   \<and> \<not> (\<exists>b \<in> set create_advanced_daily_structure.
           block_type b = ''study'' \<and> lies_within (1, 480, 25) b)
   \<and> (\<exists>b \<in> set create_advanced_daily_structure.
         block_type b = ''morning_routine'' \<and> lies_within (1, 480, 25) b)"
proof -
  have "allocate_tasks_fallback default_generator [example_task 1 ''medium'' 25]
          = Inr [(1, 480, 25)]"
    by code_simp
  then show ?thesis
    by (simp add: create_advanced_daily_structure_def hm_def lies_within_def)
qed




section \<open>The cadence of breaks\<close>













section \<open>Sorting and the prioritizer\<close>











section \<open>The ten tasks of the productivity tier\<close>










section \<open>The external generator\<close>

lemma convert_item_Inr:
  "convert_item item = Inr (i, s, d) \<Longrightarrow> 15 \<le> d \<and> d \<le> 90 \<and> item_task_id item = Some i"
  by (auto simp: convert_item_def split: option.splits sum.splits)

lemma map_err_convert:
  "map_err convert_item items = Inr allocations \<Longrightarrow>
     (\<forall>(i, s, d) \<in> set allocations. 15 \<le> d \<and> d \<le> 90)
     \<and> map (Some \<circ> fst) allocations = map item_task_id items"
proof (induction items arbitrary: allocations)
  case Nil
  then show ?case by simp
next
  case (Cons a items)
  from Cons.prems obtain y ys where y: "convert_item a = Inr y"
    and ys: "map_err convert_item items = Inr ys" and al: "allocations = y # ys"
    by (auto split: sum.splits)
  obtain i s d where yy: "y = (i, s, d)" by (cases y)
  from convert_item_Inr [OF y [unfolded yy]] Cons.IH [OF ys] show ?case by (simp add: al yy)
qed

text \<open>
  C6 (as stated, it fails: the conversion copies \<open>task_id\<close> from the response and never
  compares it with the submitted tasks). Amended: for every external-generator response
  that is accepted, every allocation produced from it has its duration clamped into
  [15, 90] minutes and carries the task id of its response item, whatever that id is;
  a response that cannot be converted (the call fails, the text does not parse, a field
  is missing or malformed) is not propagated: the result is then the rule-based
  allocation of the submitted tasks.
\<close>

theorem C6_external_response_conversion:
  "(api_available g \<longrightarrow> ai_schedule_try g response = Inr allocations \<longrightarrow>
      generate_ai_schedule g tasks response = Inr allocations
      \<and> (\<forall>(i, s, d) \<in> set allocations. 15 \<le> d \<and> d \<le> 90)
      \<and> (\<exists>items. response = ScheduleItems items
             \<and> map (Some \<circ> fst) allocations = map item_task_id items))
   \<and> (ai_schedule_try g response = Inl e \<longrightarrow>
        generate_ai_schedule g tasks response = allocate_tasks_fallback g tasks)"
proof (intro conjI impI)
  assume a: "api_available g" and t: "ai_schedule_try g response = Inr allocations"
  show "generate_ai_schedule g tasks response = Inr allocations"
    using a t by (simp add: generate_ai_schedule_def)
  from t obtain items where r: "response = ScheduleItems items"
    and m: "map_err convert_item items = Inr allocations"
    by (cases response) (auto simp: ai_schedule_try_def split: sum.splits)
  from map_err_convert [OF m]
  show "\<forall>(i, s, d) \<in> set allocations. 15 \<le> d \<and> d \<le> 90" by blast
  from map_err_convert [OF m] r
  show "\<exists>items. response = ScheduleItems items
             \<and> map (Some \<circ> fst) allocations = map item_task_id items" by blast
next
  assume "ai_schedule_try g response = Inl e"
  then show "generate_ai_schedule g tasks response = allocate_tasks_fallback g tasks"
    by (simp add: generate_ai_schedule_def)
qed

theorem C6_external_response_conversion_witness:
  "api_available (default_generator\<lparr>api_available := True\<rparr>)
   \<and> ai_schedule_try (default_generator\<lparr>api_available := True\<rparr>)
       (ScheduleItems [\<lparr>item_task_id = Some 1, item_scheduled_time = Some ''09:00'',
                        item_duration = Some 200\<rparr>])
     = Inr [(1, 540, 90)]
   \<and> generate_ai_schedule (default_generator\<lparr>api_available := True\<rparr>)
       [example_task 1 ''medium'' 200]
       (ScheduleItems [\<lparr>item_task_id = Some 1, item_scheduled_time = Some ''09:00'',
                        item_duration = Some 200\<rparr>])
     = Inr [(1, 540, 90)]
   \<and> ai_schedule_try (default_generator\<lparr>api_available := True\<rparr>) Unparseable
     = Inl ValueError
   \<and> generate_ai_schedule (default_generator\<lparr>api_available := True\<rparr>)
       [example_task 1 ''medium'' 200] Unparseable
     = allocate_tasks_fallback (default_generator\<lparr>api_available := True\<rparr>)
         [example_task 1 ''medium'' 200]"
proof -
  have a: "api_available (default_generator\<lparr>api_available := True\<rparr>)" by simp
  have t: "ai_schedule_try (default_generator\<lparr>api_available := True\<rparr>)
       (ScheduleItems [\<lparr>item_task_id = Some 1, item_scheduled_time = Some ''09:00'',
                        item_duration = Some 200\<rparr>])
     = Inr [(1, 540, 90)]"
    by code_simp
  have u: "ai_schedule_try (default_generator\<lparr>api_available := True\<rparr>) Unparseable
     = Inl ValueError"
    by code_simp
  from C6_external_response_conversion
         [of "default_generator\<lparr>api_available := True\<rparr>"
             "ScheduleItems [\<lparr>item_task_id = Some 1, item_scheduled_time = Some ''09:00'',
                              item_duration = Some 200\<rparr>]"
             "[(1, 540, 90)]" "[example_task 1 ''medium'' 200]"] a t
  have 1: "generate_ai_schedule (default_generator\<lparr>api_available := True\<rparr>)
       [example_task 1 ''medium'' 200]
       (ScheduleItems [\<lparr>item_task_id = Some 1, item_scheduled_time = Some ''09:00'',
                        item_duration = Some 200\<rparr>])
     = Inr [(1, 540, 90)]"
    by blast
  from C6_external_response_conversion
         [of "default_generator\<lparr>api_available := True\<rparr>" Unparseable _
             "[example_task 1 ''medium'' 200]" ValueError] u
  have 2: "generate_ai_schedule (default_generator\<lparr>api_available := True\<rparr>)
       [example_task 1 ''medium'' 200] Unparseable
     = allocate_tasks_fallback (default_generator\<lparr>api_available := True\<rparr>)
         [example_task 1 ''medium'' 200]"
    by blast
  from a t u 1 2 show ?thesis by blast
qed

theorem C6_counterexample:
  "generate_ai_schedule (default_generator\<lparr>api_available := True\<rparr>)
     [example_task 1 ''medium'' 25]
     (ScheduleItems [\<lparr>item_task_id = Some 999, item_scheduled_time = Some ''09:00'',
                      item_duration = Some 30\<rparr>])
   = Inr [(999, 540, 30)]
   \<and> 999 \<notin> task_id ` set [example_task 1 ''medium'' 25]"
proof -
  have "generate_ai_schedule (default_generator\<lparr>api_available := True\<rparr>)
     [example_task 1 ''medium'' 25]
     (ScheduleItems [\<lparr>item_task_id = Some 999, item_scheduled_time = Some ''09:00'',
                      item_duration = Some 30\<rparr>])
   = Inr [(999, 540, 30)]"
    by code_simp
  then show ?thesis by (simp add: example_task_def)
qed

section \<open>Distribution over several days\<close>







section \<open>The fallback chain\<close>





end
